theory Spec2Isabelle
  imports Complex_Main
begin

section \<open>Python values used by the price scripts\<close>

text \<open>
  The three scripts (\<^verbatim>\<open>spotprice.py\<close>, \<^verbatim>\<open>swapui.py\<close>, \<^verbatim>\<open>price.py\<close>) compute with
  Python integers and Python floats.  Integers are unbounded and are modelled by \<open>int\<close>.
  A float is modelled by a real number or one of the three special values that the
  scripts can create or meet (\<^verbatim>\<open>float("inf")\<close>, its negation, and
  \<^verbatim>\<open>float("nan")\<close>).  The finite part is exact real arithmetic: the rounding of a
  finite result to 53 bits, the overflow of a finite result to an infinity and the sign
  of zero are not represented.
\<close>

datatype pyfloat = Fin real | PInf | NInf | NaN

datatype error = ZeroDivisionError | TransportError

text \<open>Truth value of a float in a condition (\<^verbatim>\<open>if x\<close>): false only for zero.\<close>

fun truthy :: "pyfloat \<Rightarrow> bool" where
  "truthy (Fin r) = (r \<noteq> 0)"
| "truthy PInf = True"
| "truthy NInf = True"
| "truthy NaN = True"

text \<open>The infinity whose sign is the sign of \<open>s\<close>; \<open>inf * 0\<close> is not a number.\<close>

definition inf_of_sign :: "real \<Rightarrow> pyfloat" where
  "inf_of_sign s = (if 0 < s then PInf else if s < 0 then NInf else NaN)"

fun fneg :: "pyfloat \<Rightarrow> pyfloat" where
  "fneg (Fin r) = Fin (- r)"
| "fneg PInf = NInf"
| "fneg NInf = PInf"
| "fneg NaN = NaN"

fun fadd :: "pyfloat \<Rightarrow> pyfloat \<Rightarrow> pyfloat" where
  "fadd NaN y = NaN"
| "fadd x NaN = NaN"
| "fadd (Fin a) (Fin b) = Fin (a + b)"
| "fadd (Fin a) PInf = PInf"
| "fadd (Fin a) NInf = NInf"
| "fadd PInf (Fin b) = PInf"
| "fadd NInf (Fin b) = NInf"
| "fadd PInf PInf = PInf"
| "fadd NInf NInf = NInf"
| "fadd PInf NInf = NaN"
| "fadd NInf PInf = NaN"

definition fsub :: "pyfloat \<Rightarrow> pyfloat \<Rightarrow> pyfloat" where
  "fsub x y = fadd x (fneg y)"

fun fmul :: "pyfloat \<Rightarrow> pyfloat \<Rightarrow> pyfloat" where
  "fmul NaN y = NaN"
| "fmul x NaN = NaN"
| "fmul (Fin a) (Fin b) = Fin (a * b)"
| "fmul (Fin a) PInf = inf_of_sign a"
| "fmul (Fin a) NInf = inf_of_sign (- a)"
| "fmul PInf (Fin b) = inf_of_sign b"
| "fmul NInf (Fin b) = inf_of_sign (- b)"
| "fmul PInf PInf = PInf"
| "fmul NInf NInf = PInf"
| "fmul PInf NInf = NInf"
| "fmul NInf PInf = NInf"

text \<open>
  Float division \<^verbatim>\<open>x / y\<close>.  Python raises \<^verbatim>\<open>ZeroDivisionError\<close> for a zero
  divisor instead of returning an infinity; every other case follows IEEE 754.
\<close>

fun py_truediv :: "pyfloat \<Rightarrow> pyfloat \<Rightarrow> error + pyfloat" where
  "py_truediv NaN (Fin b) = (if b = 0 then Inl ZeroDivisionError else Inr NaN)"
| "py_truediv NaN y = Inr NaN"
| "py_truediv x NaN = Inr NaN"
| "py_truediv (Fin a) (Fin b) = (if b = 0 then Inl ZeroDivisionError else Inr (Fin (a / b)))"
| "py_truediv (Fin a) PInf = Inr (Fin 0)"
| "py_truediv (Fin a) NInf = Inr (Fin 0)"
| "py_truediv PInf (Fin b) = (if b = 0 then Inl ZeroDivisionError else Inr (inf_of_sign b))"
| "py_truediv NInf (Fin b) = (if b = 0 then Inl ZeroDivisionError else Inr (inf_of_sign (- b)))"
| "py_truediv PInf PInf = Inr NaN"
| "py_truediv PInf NInf = Inr NaN"
| "py_truediv NInf PInf = Inr NaN"
| "py_truediv NInf NInf = Inr NaN"

fun fabs :: "pyfloat \<Rightarrow> pyfloat" where
  "fabs (Fin r) = Fin \<bar>r\<bar>"
| "fabs PInf = PInf"
| "fabs NInf = PInf"
| "fabs NaN = NaN"

text \<open>The comparison \<^verbatim>\<open>x > y\<close>: false whenever an operand is not a number.\<close>

fun fgt :: "pyfloat \<Rightarrow> pyfloat \<Rightarrow> bool" where
  "fgt NaN y = False"
| "fgt x NaN = False"
| "fgt (Fin a) (Fin b) = (b < a)"
| "fgt (Fin a) PInf = False"
| "fgt (Fin a) NInf = True"
| "fgt PInf (Fin b) = True"
| "fgt NInf (Fin b) = False"
| "fgt PInf PInf = False"
| "fgt NInf NInf = False"
| "fgt PInf NInf = True"
| "fgt NInf PInf = False"

text \<open>
  The builtin \<^verbatim>\<open>sum\<close>: it starts from the integer 0 and adds the items from left to
  right.
\<close>

definition py_sum :: "pyfloat list \<Rightarrow> pyfloat" where
  "py_sum xs = foldl fadd (Fin 0) xs"

section \<open>Constants\<close>

definition USDT_DECIMALS :: nat where
  "USDT_DECIMALS = 6"

definition WETH_DECIMALS :: nat where
  "WETH_DECIMALS = 18"

text \<open>\<^verbatim>\<open>DEVIATION_WARN_PCT = 1.0\<close> of \<^verbatim>\<open>spotprice.py\<close>.\<close>

definition DEVIATION_WARN_PCT :: pyfloat where
  "DEVIATION_WARN_PCT = Fin 1"

section \<open>Executed-price decoders\<close>

text \<open>
  The decoded arguments of a swap event.  Venue A (the constant-product pool) carries
  four unsigned amounts, venue B (the concentrated-liquidity pool) two signed deltas
  and the pool's price state.  The event ABIs declare the amounts as \<^verbatim>\<open>uint256\<close>
  and \<^verbatim>\<open>int256\<close>, so their conversion to a float cannot overflow; the addresses
  of the event are not read by the decoders and are left out.
\<close>

record v2_swap_args =
  amount0In :: int
  amount1In :: int
  amount0Out :: int
  amount1Out :: int

record v3_swap_args =
  amount0 :: int
  amount1 :: int
  sqrtPriceX96 :: int
  liquidity :: int
  tick :: int

text \<open>
  \<^verbatim>\<open>spotprice.py\<close>, \<^verbatim>\<open>v2_price_from_swap\<close> and \<^verbatim>\<open>v3_price_from_swap\<close>: the price
  falls back to \<^verbatim>\<open>float("inf")\<close> when the scaled base amount is zero.  The result is
  the pair \<open>(px, eth_in)\<close>, or \<open>None\<close> for a log that is not a base-to-quote trade.
\<close>

definition spotprice_v2_price_from_swap ::
    "v2_swap_args \<Rightarrow> error + (pyfloat \<times> pyfloat) option" where
  "spotprice_v2_price_from_swap ev_args =
     (let a0in = amount0In ev_args;
          a1out = amount1Out ev_args
      in if 0 < a0in \<and> 0 < a1out then
           (let eth_in = Fin (real_of_int a0in / 10 ^ 18);
                usdt_out = Fin (real_of_int a1out / 10 ^ USDT_DECIMALS)
            in case (if truthy eth_in then py_truediv usdt_out eth_in else Inr PInf) of
                 Inl e \<Rightarrow> Inl e
               | Inr px \<Rightarrow> Inr (Some (px, eth_in)))
         else Inr None)"

definition spotprice_v3_price_from_swap ::
    "v3_swap_args \<Rightarrow> error + (pyfloat \<times> pyfloat) option" where
  "spotprice_v3_price_from_swap ev_args =
     (let a0 = amount0 ev_args;
          a1 = amount1 ev_args
      in if 0 < a0 \<and> a1 < 0 then
           (let eth_in = Fin (real_of_int a0 / 10 ^ 18);
                usdt_out = Fin (real_of_int \<bar>a1\<bar> / 10 ^ USDT_DECIMALS)
            in case (if truthy eth_in then py_truediv usdt_out eth_in else Inr PInf) of
                 Inl e \<Rightarrow> Inl e
               | Inr px \<Rightarrow> Inr (Some (px, eth_in)))
         else Inr None)"

text \<open>
  \<^verbatim>\<open>swapui.py\<close>, the same two decoders without the fallback: the division is written
  bare, \<^verbatim>\<open>return usdt / eth, eth\<close>.
\<close>

definition swapui_v2_price_from_swap ::
    "v2_swap_args \<Rightarrow> error + (pyfloat \<times> pyfloat) option" where
  "swapui_v2_price_from_swap args =
     (let a0in = amount0In args;
          a1out = amount1Out args
      in if 0 < a0in \<and> 0 < a1out then
           (let eth = Fin (real_of_int a0in / 10 ^ 18);
                usdt = Fin (real_of_int a1out / 10 ^ USDT_DECIMALS)
            in case py_truediv usdt eth of
                 Inl e \<Rightarrow> Inl e
               | Inr px \<Rightarrow> Inr (Some (px, eth)))
         else Inr None)"

definition swapui_v3_price_from_swap ::
    "v3_swap_args \<Rightarrow> error + (pyfloat \<times> pyfloat) option" where
  "swapui_v3_price_from_swap args =
     (let a0 = amount0 args;
          a1 = amount1 args
      in if 0 < a0 \<and> a1 < 0 then
           (let eth = Fin (real_of_int a0 / 10 ^ 18);
                usdt = Fin (real_of_int \<bar>a1\<bar> / 10 ^ USDT_DECIMALS)
            in case py_truediv usdt eth of
                 Inl e \<Rightarrow> Inl e
               | Inr px \<Rightarrow> Inr (Some (px, eth)))
         else Inr None)"

section \<open>Rolling aggregates\<close>

text \<open>
  \<^verbatim>\<open>vwap\<close>, identical in \<^verbatim>\<open>spotprice.py\<close> and \<^verbatim>\<open>swapui.py\<close>.  A window is the
  list of its \<open>(price, size)\<close> pairs, oldest first.
\<close>

definition vwap :: "(pyfloat \<times> pyfloat) list \<Rightarrow> error + pyfloat option" where
  "vwap deq =
     (if deq = [] then Inr None
      else
        (let num = py_sum (map (\<lambda>(p, sz). fmul p sz) deq);
             den = py_sum (map (\<lambda>(p, sz). sz) deq)
         in if truthy den then
              (case py_truediv num den of
                 Inl e \<Rightarrow> Inl e
               | Inr q \<Rightarrow> Inr (Some q))
            else Inr None))"

text \<open>
  \<^verbatim>\<open>safe_avg\<close> of \<^verbatim>\<open>price.py\<close>: the comprehension keeps a value \<open>v\<close> when
  \<^verbatim>\<open>v and v != float("inf")\<close>, then divides the sum by the count.
\<close>

definition safe_avg :: "pyfloat list \<Rightarrow> error + pyfloat option" where
  "safe_avg values =
     (let vals = filter (\<lambda>v. truthy v \<and> v \<noteq> PInf) values
      in if vals \<noteq> [] then
           (case py_truediv (py_sum vals) (Fin (real (length vals))) of
              Inl e \<Rightarrow> Inl e
            | Inr q \<Rightarrow> Inr (Some q))
         else Inr None)"

text \<open>
  The simple average as the specification words it: the mean of the entries that are
  not the infinite sentinel, unavailable when none remain.
\<close>

definition spec_simple_average :: "pyfloat list \<Rightarrow> error + pyfloat option" where
  "spec_simple_average values =
     (let vals = filter (\<lambda>v. v \<noteq> PInf) values
      in if vals \<noteq> [] then
           (case py_truediv (py_sum vals) (Fin (real (length vals))) of
              Inl e \<Rightarrow> Inl e
            | Inr q \<Rightarrow> Inr (Some q))
         else Inr None)"

text \<open>The finite entries of a list of floats, in order.\<close>

fun finite_values :: "pyfloat list \<Rightarrow> real list" where
  "finite_values [] = []"
| "finite_values (Fin r # vs) = r # finite_values vs"
| "finite_values (v # vs) = finite_values vs"

section \<open>Bounded windows\<close>

text \<open>
  \<^verbatim>\<open>collections.deque(maxlen=K)\<close>: \<^verbatim>\<open>append\<close> adds on the right and, when the
  length then exceeds \<open>K\<close>, drops one item on the left.  The constructor
  \<^verbatim>\<open>deque(iterable, maxlen=K)\<close> appends the items one by one.
\<close>

definition deque_append :: "nat \<Rightarrow> 'a list \<Rightarrow> 'a \<Rightarrow> 'a list" where
  "deque_append maxlen d x = (let d' = d @ [x] in if maxlen < length d' then tl d' else d')"

definition deque_init :: "nat \<Rightarrow> 'a list \<Rightarrow> 'a list" where
  "deque_init maxlen xs = foldl (deque_append maxlen) [] xs"

section \<open>Spot price and deviation\<close>

text \<open>
  \<^verbatim>\<open>v2_spot_price\<close> and \<^verbatim>\<open>v3_spot_price\<close>, identical in \<^verbatim>\<open>spotprice.py\<close> and
  \<^verbatim>\<open>swapui.py\<close>.  The argument is what the contract call returned:
  \<open>(r0, r1, blockTimestampLast)\<close> of \<^verbatim>\<open>getReserves\<close>, and the first item of
  \<^verbatim>\<open>slot0\<close>.
\<close>

definition v2_spot_price :: "int \<times> int \<times> int \<Rightarrow> error + pyfloat" where
  "v2_spot_price reserves =
     (case reserves of (r0, r1, ts) \<Rightarrow>
        (let reserve_eth = Fin (real_of_int r0 / 10 ^ 18);
             reserve_usdt = Fin (real_of_int r1 / 10 ^ USDT_DECIMALS)
         in if truthy reserve_eth then py_truediv reserve_usdt reserve_eth else Inr PInf))"

definition v3_spot_price :: "int \<Rightarrow> pyfloat" where
  "v3_spot_price sqrtP =
     (let raw = (real_of_int sqrtP / 2 ^ 96) ^ 2
      in Fin (raw * 10 ^ (WETH_DECIMALS - USDT_DECIMALS)))"

text \<open>\<^verbatim>\<open>pct_diff\<close> of \<^verbatim>\<open>spotprice.py\<close>.\<close>

definition pct_diff :: "pyfloat option \<Rightarrow> pyfloat option \<Rightarrow> error + pyfloat option" where
  "pct_diff a b =
     (case (a, b) of
        (Some x, Some y) \<Rightarrow>
          (if y = Fin 0 then Inr None
           else (case py_truediv (fmul (Fin 100) (fsub x y)) y of
                   Inl e \<Rightarrow> Inl e
                 | Inr d \<Rightarrow> Inr (Some d)))
      | _ \<Rightarrow> Inr None)"

text \<open>
  The comparison block of \<^verbatim>\<open>main\<close> in \<^verbatim>\<open>spotprice.py\<close>, the same for both venues:
  with the venue's VWAP \<open>v\<close> and its spot price, the warning line is printed when
  \<^verbatim>\<open>v is not None\<close>, \<^verbatim>\<open>d = pct_diff(v, spot)\<close> is not \<open>None\<close> and
  \<^verbatim>\<open>abs(d) > DEVIATION_WARN_PCT\<close>.  The result says whether the warning is printed.
\<close>

definition deviation_warn :: "pyfloat option \<Rightarrow> pyfloat \<Rightarrow> error + bool" where
  "deviation_warn v spot =
     (case v of
        None \<Rightarrow> Inr False
      | Some x \<Rightarrow>
          (case pct_diff (Some x) (Some spot) of
             Inl e \<Rightarrow> Inl e
           | Inr None \<Rightarrow> Inr False
           | Inr (Some d) \<Rightarrow> Inr (fgt (fabs d) DEVIATION_WARN_PCT)))"

section \<open>The engine of \<^verbatim>\<open>swapui.py\<close>\<close>

text \<open>\<^verbatim>\<open>VWAP_WINDOW = 30\<close> in \<^verbatim>\<open>swapui.py\<close> (it is 20 in \<^verbatim>\<open>spotprice.py\<close>).\<close>

definition VWAP_WINDOW :: nat where
  "VWAP_WINDOW = 30"

record ExecTrade =
  ts :: pyfloat
  block :: int
  pool :: string
  eth_size :: pyfloat
  price :: pyfloat
  tx :: string

text \<open>
  Handles of the transport: a connection, a contract bound to a connection, and a log
  filter installed on a connection from a block height.  Their content is of no
  interest here, only their identity.  The record below has the fields that
  \<^verbatim>\<open>Engine.__init__\<close> assigns, \<open>stop\<close> standing for \<^verbatim>\<open>_stop\<close>; the lock and the
  thread object are not data of the computation and are left out.  The four deques are
  created with \<^verbatim>\<open>maxlen\<close> \<^verbatim>\<open>VWAP_WINDOW\<close>, \<^verbatim>\<open>VWAP_WINDOW\<close>, 200 and 600.
\<close>

datatype web3 = Web3 nat

datatype contract = Contract web3 string

datatype log_filter = LogFilter web3 int string

record engine =
  w3 :: web3
  from_block :: int
  v2 :: contract
  v3 :: contract
  v2_topic :: string
  v3_topic :: string
  v2_filter :: log_filter
  v3_filter :: log_filter
  v2_trades :: "(pyfloat \<times> pyfloat) list"
  v3_trades :: "(pyfloat \<times> pyfloat) list"
  recent_execs :: "ExecTrade list"
  series :: "(pyfloat \<times> pyfloat \<times> pyfloat \<times> pyfloat) list"
  v2spot :: "pyfloat option"
  v3spot :: "pyfloat option"
  stop :: bool

text \<open>
  The combined VWAP of \<^verbatim>\<open>Engine._run\<close>:
  \<^verbatim>\<open>vwap(deque(list(self.v2_trades) + list(self.v3_trades), maxlen=VWAP_WINDOW))\<close>.
\<close>

definition combined_vwap ::
    "(pyfloat \<times> pyfloat) list \<Rightarrow> (pyfloat \<times> pyfloat) list \<Rightarrow> error + pyfloat option" where
  "combined_vwap v2_win v3_win = vwap (deque_init VWAP_WINDOW (v2_win @ v3_win))"

text \<open>\<^verbatim>\<open>comb if comb else float("nan")\<close>: an absent or zero value is charted as NaN.\<close>

definition comb_or_nan :: "pyfloat option \<Rightarrow> pyfloat" where
  "comb_or_nan comb = (case comb of None \<Rightarrow> NaN | Some c \<Rightarrow> if truthy c then c else NaN)"

text \<open>
  The spot refresh of \<^verbatim>\<open>Engine._run\<close>, run when the refresh interval has passed.
  \<open>reserves\<close> and \<open>slot0\<close> are the outcomes of the two contract calls; a call that
  raises leaves the state as it is and hands the exception to the handler of the loop.
\<close>

definition spot_refresh ::
    "pyfloat \<Rightarrow> error + (int \<times> int \<times> int) \<Rightarrow> error + int \<Rightarrow> engine \<Rightarrow> error + engine" where
  "spot_refresh now reserves slot0 s =
     (case reserves of
        Inl e \<Rightarrow> Inl e
      | Inr rs \<Rightarrow>
          (case v2_spot_price rs of
             Inl e \<Rightarrow> Inl e
           | Inr v2s \<Rightarrow>
               (case slot0 of
                  Inl e \<Rightarrow> Inl e
                | Inr sqrtP \<Rightarrow>
                    (let v3s = v3_spot_price sqrtP
                     in case combined_vwap (v2_trades s) (v3_trades s) of
                          Inl e \<Rightarrow> Inl e
                        | Inr comb \<Rightarrow>
                            Inr (s\<lparr>v2spot := Some v2s, v3spot := Some v3s,
                                   series := deque_append 600 (series s)
                                               (now, v2s, v3s, comb_or_nan comb)\<rparr>)))))"

text \<open>
  The handler of \<^verbatim>\<open>Engine._run\<close> (\<^verbatim>\<open>except Exception\<close>): after the pause it
  rebuilds the connection, the two contracts and the two filters, in this order, inside
  a \<^verbatim>\<open>try\<close> whose own handler is \<^verbatim>\<open>pass\<close>.  The environment gives the outcome of
  each of the five steps; the first one that raises ends the rebuild and keeps what was
  assigned before it.
\<close>

record reconnect_env =
  new_w3 :: "error + web3"
  new_v2 :: "web3 \<Rightarrow> error + contract"
  new_v3 :: "web3 \<Rightarrow> error + contract"
  new_v2_filter :: "web3 \<Rightarrow> error + log_filter"
  new_v3_filter :: "web3 \<Rightarrow> error + log_filter"

definition reconnect :: "reconnect_env \<Rightarrow> engine \<Rightarrow> engine" where
  "reconnect env s =
     (case new_w3 env of
        Inl e \<Rightarrow> s
      | Inr w \<Rightarrow>
          (let s1 = s\<lparr>w3 := w\<rparr>
           in case new_v2 env (w3 s1) of
                Inl e \<Rightarrow> s1
              | Inr c2 \<Rightarrow>
                  (let s2 = s1\<lparr>v2 := c2\<rparr>
                   in case new_v3 env (w3 s2) of
                        Inl e \<Rightarrow> s2
                      | Inr c3 \<Rightarrow>
                          (let s3 = s2\<lparr>v3 := c3\<rparr>
                           in case new_v2_filter env (w3 s3) of
                                Inl e \<Rightarrow> s3
                              | Inr f2 \<Rightarrow>
                                  (let s4 = s3\<lparr>v2_filter := f2\<rparr>
                                   in case new_v3_filter env (w3 s4) of
                                        Inl e \<Rightarrow> s4
                                      | Inr f3 \<Rightarrow> s4\<lparr>v3_filter := f3\<rparr>)))))"

text \<open>
  The body of the two polling loops of \<^verbatim>\<open>Engine._run\<close> for one decoded log:
  a log that the decoder accepts is appended to the window of its venue and, as an
  \<^verbatim>\<open>ExecTrade\<close>, to the log of recent trades (a window of 200); any other log
  changes nothing.  \<open>now\<close> is the reading of the clock.
\<close>

definition ingest_v2 ::
    "pyfloat \<Rightarrow> int \<Rightarrow> string \<Rightarrow> v2_swap_args \<Rightarrow> engine \<Rightarrow> error + engine" where
  "ingest_v2 now blockNumber transactionHash ev_args s =
     (case swapui_v2_price_from_swap ev_args of
        Inl e \<Rightarrow> Inl e
      | Inr None \<Rightarrow> Inr s
      | Inr (Some (px, eth_sz)) \<Rightarrow>
          Inr (s\<lparr>v2_trades := deque_append VWAP_WINDOW (v2_trades s) (px, eth_sz),
                 recent_execs := deque_append 200 (recent_execs s)
                   \<lparr>ts = now, block = blockNumber, pool = ''V2'', eth_size = eth_sz,
                    price = px, tx = transactionHash\<rparr>\<rparr>))"

definition ingest_v3 ::
    "pyfloat \<Rightarrow> int \<Rightarrow> string \<Rightarrow> v3_swap_args \<Rightarrow> engine \<Rightarrow> error + engine" where
  "ingest_v3 now blockNumber transactionHash ev_args s =
     (case swapui_v3_price_from_swap ev_args of
        Inl e \<Rightarrow> Inl e
      | Inr None \<Rightarrow> Inr s
      | Inr (Some (px, eth_sz)) \<Rightarrow>
          Inr (s\<lparr>v3_trades := deque_append VWAP_WINDOW (v3_trades s) (px, eth_sz),
                 recent_execs := deque_append 200 (recent_execs s)
                   \<lparr>ts = now, block = blockNumber, pool = ''V3'', eth_size = eth_sz,
                    price = px, tx = transactionHash\<rparr>\<rparr>))"

section \<open>Auxiliary notions for the statements\<close>

text \<open>A window whose entries are all finite, given by real numbers.\<close>

definition fin_pair :: "real \<times> real \<Rightarrow> pyfloat \<times> pyfloat" where
  "fin_pair pw = (Fin (fst pw), Fin (snd pw))"

text \<open>
  The ranges that the event ABIs declare: \<^verbatim>\<open>uint256\<close> for the four amounts of
  venue A, \<^verbatim>\<open>int256\<close> for the two deltas of venue B.
\<close>

definition uint256_args :: "v2_swap_args \<Rightarrow> bool" where
  "uint256_args a =
     (0 \<le> amount0In a \<and> amount0In a < 2 ^ 256 \<and> 0 \<le> amount1In a \<and> amount1In a < 2 ^ 256 \<and>
      0 \<le> amount0Out a \<and> amount0Out a < 2 ^ 256 \<and> 0 \<le> amount1Out a \<and> amount1Out a < 2 ^ 256)"

definition int256_args :: "v3_swap_args \<Rightarrow> bool" where
  "int256_args a =
     (- (2 ^ 255) \<le> amount0 a \<and> amount0 a < 2 ^ 255 \<and>
      - (2 ^ 255) \<le> amount1 a \<and> amount1 a < 2 ^ 255)"

text \<open>A window that holds only finite, strictly positive prices and sizes.\<close>

fun is_pos_fin :: "pyfloat \<Rightarrow> bool" where
  "is_pos_fin (Fin r) = (0 < r)"
| "is_pos_fin PInf = False"
| "is_pos_fin NInf = False"
| "is_pos_fin NaN = False"

definition window_ok :: "(pyfloat \<times> pyfloat) list \<Rightarrow> bool" where
  "window_ok d = list_all (\<lambda>(p, sz). is_pos_fin p \<and> is_pos_fin sz) d"

section \<open>Properties of the decoders\<close>

lemma v2_decoders_value:
  "spotprice_v2_price_from_swap a =
     Inr (if 0 < amount0In a \<and> 0 < amount1Out a
          then Some (Fin ((real_of_int (amount1Out a) / 10 ^ 6) / (real_of_int (amount0In a) / 10 ^ 18)),
                     Fin (real_of_int (amount0In a) / 10 ^ 18))
          else None)"
  "swapui_v2_price_from_swap a = spotprice_v2_price_from_swap a"
  by (simp_all add: spotprice_v2_price_from_swap_def swapui_v2_price_from_swap_def
        USDT_DECIMALS_def Let_def)

lemma v3_decoders_value:
  "spotprice_v3_price_from_swap a =
     Inr (if 0 < amount0 a \<and> amount1 a < 0
          then Some (Fin ((real_of_int \<bar>amount1 a\<bar> / 10 ^ 6) / (real_of_int \<bar>amount0 a\<bar> / 10 ^ 18)),
                     Fin (real_of_int (amount0 a) / 10 ^ 18))
          else None)"
  "swapui_v3_price_from_swap a = spotprice_v3_price_from_swap a"
  by (simp_all add: spotprice_v3_price_from_swap_def swapui_v3_price_from_swap_def
        USDT_DECIMALS_def Let_def)

text \<open>
  Claim C1.  For every swap log of venue A, both decoders (\<^verbatim>\<open>spotprice.py\<close> and
  \<^verbatim>\<open>swapui.py\<close>) return a trade exactly when \<open>amount0In > 0\<close> and \<open>amount1Out > 0\<close>;
  its price is \<open>amount1Out / 10^6\<close> divided by \<open>amount0In / 10^18\<close> and its size is
  \<open>amount0In / 10^18\<close>.  The log with \<open>amount0In = 10^18\<close>, \<open>amount1Out = 2000 * 10^6\<close>
  and the other amounts zero gives size 1 and price 2000 (the quote amount being
  \<open>2000 * 10^6 / 10^6 = 2000\<close>), and a log with \<open>amount0In = 0\<close> gives no trade.
\<close>

theorem v2_price_from_swap_decodes:
  "spotprice_v2_price_from_swap a =
     Inr (if 0 < amount0In a \<and> 0 < amount1Out a
          then Some (Fin ((real_of_int (amount1Out a) / 10 ^ 6) / (real_of_int (amount0In a) / 10 ^ 18)),
                     Fin (real_of_int (amount0In a) / 10 ^ 18))
          else None)
   \<and> swapui_v2_price_from_swap a = spotprice_v2_price_from_swap a
   \<and> spotprice_v2_price_from_swap
        \<lparr>amount0In = 10 ^ 18, amount1In = 0, amount0Out = 0, amount1Out = 2000 * 10 ^ 6\<rparr>
       = Inr (Some (Fin 2000, Fin 1))
   \<and> (amount0In a = 0 \<longrightarrow>
        spotprice_v2_price_from_swap a = Inr None \<and> swapui_v2_price_from_swap a = Inr None)"
  by (simp add: v2_decoders_value)

theorem v2_price_from_swap_decodes_witness:
  "amount0In \<lparr>amount0In = 0, amount1In = 3 * 10 ^ 6, amount0Out = 10 ^ 15, amount1Out = 0\<rparr> = 0
   \<and> swapui_v2_price_from_swap
        \<lparr>amount0In = 0, amount1In = 3 * 10 ^ 6, amount0Out = 10 ^ 15, amount1Out = 0\<rparr> = Inr None
   \<and> swapui_v2_price_from_swap
        \<lparr>amount0In = 10 ^ 18, amount1In = 0, amount0Out = 0, amount1Out = 2000 * 10 ^ 6\<rparr>
       = Inr (Some (Fin 2000, Fin 1))"
  using v2_price_from_swap_decodes
          [of "\<lparr>amount0In = 0, amount1In = 3 * 10 ^ 6, amount0Out = 10 ^ 15, amount1Out = 0\<rparr>"]
        v2_price_from_swap_decodes
          [of "\<lparr>amount0In = 10 ^ 18, amount1In = 0, amount0Out = 0, amount1Out = 2000 * 10 ^ 6\<rparr>"]
  by simp

text \<open>
  Claim C2.  For every swap log of venue B, both decoders return a trade exactly when
  \<open>amount0 > 0\<close> and \<open>amount1 < 0\<close>; its price is \<open>|amount1| / 10^6\<close> divided by
  \<open>|amount0| / 10^18\<close>.  The deltas \<open>+10^18\<close> and \<open>-1800 * 10^6\<close> give the price 1800;
  the deltas \<open>+10^18\<close> and \<open>+500 * 10^6\<close> give no trade.
\<close>

theorem v3_price_from_swap_decodes:
  "spotprice_v3_price_from_swap a =
     Inr (if 0 < amount0 a \<and> amount1 a < 0
          then Some (Fin ((real_of_int \<bar>amount1 a\<bar> / 10 ^ 6) / (real_of_int \<bar>amount0 a\<bar> / 10 ^ 18)),
                     Fin (real_of_int (amount0 a) / 10 ^ 18))
          else None)
   \<and> swapui_v3_price_from_swap a = spotprice_v3_price_from_swap a
   \<and> spotprice_v3_price_from_swap
        \<lparr>amount0 = 10 ^ 18, amount1 = - (1800 * 10 ^ 6), sqrtPriceX96 = q, liquidity = l, tick = t\<rparr>
       = Inr (Some (Fin 1800, Fin 1))
   \<and> spotprice_v3_price_from_swap
        \<lparr>amount0 = 10 ^ 18, amount1 = 500 * 10 ^ 6, sqrtPriceX96 = q, liquidity = l, tick = t\<rparr>
       = Inr None"
  by (simp add: v3_decoders_value)

theorem v3_price_from_swap_decodes_witness:
  "swapui_v3_price_from_swap
        \<lparr>amount0 = 10 ^ 18, amount1 = - (1800 * 10 ^ 6), sqrtPriceX96 = 0, liquidity = 0, tick = 0\<rparr>
       = Inr (Some (Fin 1800, Fin 1))
   \<and> swapui_v3_price_from_swap
        \<lparr>amount0 = 10 ^ 18, amount1 = 500 * 10 ^ 6, sqrtPriceX96 = 0, liquidity = 0, tick = 0\<rparr>
       = Inr None"
  using v3_price_from_swap_decodes
          [of "\<lparr>amount0 = 10 ^ 18, amount1 = - (1800 * 10 ^ 6), sqrtPriceX96 = 0, liquidity = 0, tick = 0\<rparr>" 0 0 0]
        v3_price_from_swap_decodes
          [of "\<lparr>amount0 = 10 ^ 18, amount1 = 500 * 10 ^ 6, sqrtPriceX96 = 0, liquidity = 0, tick = 0\<rparr>" 0 0 0]
  by simp

section \<open>Properties of the aggregates\<close>

lemma foldl_fadd_Fin: "foldl fadd (Fin a) (map Fin rs) = Fin (a + sum_list rs)"
  by (induction rs arbitrary: a) (simp_all add: add.assoc)

lemma py_sum_Fin: "py_sum (map Fin rs) = Fin (sum_list rs)"
  by (simp add: py_sum_def foldl_fadd_Fin)

lemma vwap_general:
  "vwap d =
     (if d = [] \<or> py_sum (map snd d) = Fin 0 then Inr None
      else map_sum id Some
             (py_truediv (py_sum (map (\<lambda>(p, sz). fmul p sz) d)) (py_sum (map snd d))))"
  by (cases "py_sum (map snd d)")
     (auto simp add: vwap_def Let_def case_prod_unfold split: sum.splits)

lemma vwap_never_raises: "\<exists>r. vwap d = Inr r"
  by (cases "py_sum (map snd d)"; cases "py_sum (map (\<lambda>(p, sz). fmul p sz) d)")
     (auto simp add: vwap_def Let_def case_prod_unfold inf_of_sign_def split: sum.splits)

lemma vwap_finite:
  "vwap (map fin_pair xs) =
     Inr (if xs = [] \<or> (\<Sum>(p, w)\<leftarrow>xs. w) = 0 then None
          else Some (Fin ((\<Sum>(p, w)\<leftarrow>xs. p * w) / (\<Sum>(p, w)\<leftarrow>xs. w))))"
proof -
  have n: "map (\<lambda>(p, sz). fmul p sz) (map fin_pair xs) = map Fin (map (\<lambda>(p, w). p * w) xs)"
    by (simp add: fin_pair_def case_prod_unfold)
  have d: "map (\<lambda>(p, sz). sz) (map fin_pair xs) = map Fin (map (\<lambda>(p, w). w) xs)"
    by (simp add: fin_pair_def case_prod_unfold)
  show ?thesis
    unfolding vwap_def n d py_sum_Fin by (simp add: Let_def)
qed

text \<open>
  Claim C3.  \<^verbatim>\<open>vwap\<close> never raises.  It is unavailable (\<open>None\<close>) exactly when the
  window is empty or the sum of the weights is zero, and otherwise it is the quotient of
  the two float sums.  On a window of finite entries that quotient is
  \<open>\<Sum>(price * weight) / \<Sum>weight\<close> over the contents; over \<open>[(10, 2), (20, 1)]\<close> it is
  \<open>40 / 3\<close>, and over the empty window it is unavailable.
\<close>

theorem vwap_is_weighted_mean:
  "(\<exists>r. vwap d = Inr r)
   \<and> (vwap d = Inr None \<longleftrightarrow> d = [] \<or> py_sum (map snd d) = Fin 0)
   \<and> vwap d =
       (if d = [] \<or> py_sum (map snd d) = Fin 0 then Inr None
        else map_sum id Some
               (py_truediv (py_sum (map (\<lambda>(p, sz). fmul p sz) d)) (py_sum (map snd d))))
   \<and> vwap (map fin_pair xs) =
       Inr (if xs = [] \<or> (\<Sum>(p, w)\<leftarrow>xs. w) = 0 then None
            else Some (Fin ((\<Sum>(p, w)\<leftarrow>xs. p * w) / (\<Sum>(p, w)\<leftarrow>xs. w))))
   \<and> vwap [(Fin 10, Fin 2), (Fin 20, Fin 1)] = Inr (Some (Fin (40 / 3)))
   \<and> vwap [] = Inr None"
proof -
  have iff: "vwap d = Inr None \<longleftrightarrow> d = [] \<or> py_sum (map snd d) = Fin 0"
    using vwap_never_raises [of d] by (auto simp add: vwap_general [of d] map_sum_def split: sum.splits)
  have ex: "vwap [(Fin 10, Fin 2), (Fin 20, Fin 1)] = Inr (Some (Fin (40 / 3)))"
    by (simp add: vwap_def py_sum_def)
  have emp: "vwap [] = Inr None"
    by (simp add: vwap_def)
  show ?thesis
    using vwap_never_raises [of d] iff vwap_general [of d] vwap_finite [of xs] ex emp
    by blast
qed

section \<open>Properties of the bounded window\<close>

lemma deque_append_drop:
  "length d \<le> K \<Longrightarrow> deque_append K d x = drop (length (d @ [x]) - K) (d @ [x])"
  by (cases d) (auto simp add: deque_append_def Let_def Suc_diff_le)

lemma deque_fold_drop:
  "length d \<le> K \<Longrightarrow> foldl (deque_append K) d xs = drop (length (d @ xs) - K) (d @ xs)"
proof (induction xs rule: rev_induct)
  case Nil
  then show ?case by simp
next
  case (snoc x xs)
  define ys where "ys = d @ xs"
  define w where "w = drop (length ys - K) ys"
  have len: "length w \<le> K" by (simp add: w_def)
  have "foldl (deque_append K) d (xs @ [x]) = deque_append K w x"
    using snoc by (simp add: w_def ys_def)
  also have "\<dots> = drop (length (w @ [x]) - K) (w @ [x])"
    using len by (rule deque_append_drop)
  also have "\<dots> = drop (length (ys @ [x]) - K) (ys @ [x])"
  proof (cases "length ys \<le> K")
    case True
    then show ?thesis by (simp add: w_def)
  next
    case False
    then have lw: "length w = K" by (simp add: w_def)
    have "drop (length (w @ [x]) - K) (w @ [x]) = drop 1 (w @ [x])"
      by (simp add: lw)
    also have "\<dots> = drop 1 (drop (length ys - K) (ys @ [x]))"
      by (simp add: w_def)
    also have "\<dots> = drop (length (ys @ [x]) - K) (ys @ [x])"
      using False by (simp add: Suc_diff_le)
    finally show ?thesis .
  qed
  finally show ?case by (simp add: ys_def)
qed

lemma deque_init_drop: "deque_init K xs = drop (length xs - K) xs"
  using deque_fold_drop [of "[]" K xs] by (simp add: deque_init_def)

text \<open>
  Claim C4.  Pushing any sequence \<open>xs\<close> into a window \<open>d\<close> of capacity \<open>K\<close> (that
  holds at most \<open>K\<close> entries) leaves at most \<open>K\<close> entries, namely the last \<open>K\<close> of
  the old contents followed by \<open>xs\<close>, in arrival order.  After more than \<open>K\<close> pushes
  these are exactly the last \<open>K\<close> pushed entries.  A push into a full window drops its
  oldest entry.
\<close>

theorem window_keeps_last_K:
  "length d \<le> K \<Longrightarrow>
     length (foldl (deque_append K) d xs) \<le> K
   \<and> foldl (deque_append K) d xs = drop (length (d @ xs) - K) (d @ xs)
   \<and> (K < length xs \<longrightarrow>
        foldl (deque_append K) d xs = drop (length xs - K) xs
      \<and> length (foldl (deque_append K) d xs) = K)
   \<and> (length d = K \<and> 0 < K \<longrightarrow> deque_append K d x = tl d @ [x])"
proof -
  assume le: "length d \<le> K"
  have eq: "foldl (deque_append K) d xs = drop (length (d @ xs) - K) (d @ xs)"
    using le by (rule deque_fold_drop)
  have bound: "length (foldl (deque_append K) d xs) \<le> K"
    by (simp add: eq)
  have many: "foldl (deque_append K) d xs = drop (length xs - K) xs
      \<and> length (foldl (deque_append K) d xs) = K" if "K < length xs"
    using that by (simp add: eq)
  have full: "deque_append K d x = tl d @ [x]" if "length d = K \<and> 0 < K"
    using that by (cases d) (auto simp add: deque_append_def)
  show ?thesis
    using eq bound many full by blast
qed

theorem window_keeps_last_K_witness:
  "length [1, 2 :: nat] \<le> 2
   \<and> foldl (deque_append 2) [1, 2 :: nat] [3, 4, 5] = [4, 5]
   \<and> deque_append 2 [1, 2 :: nat] 3 = [2, 3]"
  using window_keeps_last_K [of "[1, 2 :: nat]" 2 "[3, 4, 5]" 3]
  by (simp add: deque_append_def)

lemma combined_vwap_last:
  "combined_vwap xs ys = vwap (drop (length (xs @ ys) - VWAP_WINDOW) (xs @ ys))"
  by (simp add: combined_vwap_def deque_init_drop)

text \<open>
  A consequence of the bounded view: once the window of venue B is full, the combined
  value is the VWAP of venue B alone.
\<close>

lemma combined_vwap_full_v3:
  "length ys = VWAP_WINDOW \<Longrightarrow> combined_vwap xs ys = vwap ys"
  by (simp add: combined_vwap_last)

section \<open>Properties of the simple average\<close>

lemma kept_finite:
  "NInf \<notin> set vs \<Longrightarrow> NaN \<notin> set vs \<Longrightarrow>
   filter (\<lambda>v. truthy v \<and> v \<noteq> PInf) vs = map Fin (filter (\<lambda>r. r \<noteq> 0) (finite_values vs))"
  by (induction vs rule: finite_values.induct) auto

lemma safe_avg_none_iff:
  "safe_avg vs = Inr None \<longleftrightarrow> (\<forall>v \<in> set vs. v = Fin 0 \<or> v = PInf)"
proof -
  let ?vals = "filter (\<lambda>v. truthy v \<and> v \<noteq> PInf) vs"
  have t: "\<And>v. (truthy v \<and> v \<noteq> PInf) = (\<not> (v = Fin 0 \<or> v = PInf))"
    subgoal for v by (cases v) auto
    done
  have e: "?vals = [] \<longleftrightarrow> (\<forall>v \<in> set vs. v = Fin 0 \<or> v = PInf)"
    by (simp add: filter_empty_conv t)
  have "safe_avg vs \<noteq> Inr None" if "?vals \<noteq> []"
    using that by (simp add: safe_avg_def Let_def split: sum.splits)
  moreover have "safe_avg vs = Inr None" if "?vals = []"
    using that by (simp add: safe_avg_def Let_def)
  ultimately show ?thesis using e by blast
qed

lemma safe_avg_never_raises: "\<exists>r. safe_avg vs = Inr r"
proof (cases "filter (\<lambda>v. truthy v \<and> v \<noteq> PInf) vs = []")
  case True
  then show ?thesis by (simp add: safe_avg_def)
next
  case False
  then have "real (length (filter (\<lambda>v. truthy v \<and> v \<noteq> PInf) vs)) \<noteq> 0" by simp
  then show ?thesis
    using False
    by (cases "py_sum (filter (\<lambda>v. truthy v \<and> v \<noteq> PInf) vs)")
       (simp_all add: safe_avg_def Let_def del: of_nat_eq_0_iff)
qed

lemma safe_avg_finite:
  assumes "NInf \<notin> set vs" "NaN \<notin> set vs"
  shows "safe_avg vs =
     Inr (let rs = filter (\<lambda>r. r \<noteq> 0) (finite_values vs)
          in if rs = [] then None else Some (Fin (sum_list rs / real (length rs))))"
  by (simp add: safe_avg_def Let_def kept_finite [OF assms] py_sum_Fin)

text \<open>
  Claim C5, as stated, fails: \<^verbatim>\<open>safe_avg\<close> also drops the entries equal to zero,
  because its filter tests the truth value of the entry first.  Over \<open>[0, 10]\<close> it
  returns 10 where the mean of the entries other than the sentinel is 5, and over
  \<open>[0]\<close> it is unavailable although an entry other than the sentinel remains.
\<close>

theorem safe_avg_drops_zero_counterexample:
  "safe_avg [Fin 0, Fin 10] = Inr (Some (Fin 10))
   \<and> spec_simple_average [Fin 0, Fin 10] = Inr (Some (Fin 5))
   \<and> safe_avg [Fin 0] = Inr None
   \<and> spec_simple_average [Fin 0] = Inr (Some (Fin 0))"
  by (simp add: safe_avg_def spec_simple_average_def py_sum_def)

text \<open>
  Claim C5, amended.  \<^verbatim>\<open>safe_avg\<close> never raises.  It is unavailable (\<open>None\<close>)
  exactly when every entry is zero or the infinite sentinel.  On stored values that are
  finite or the sentinel it returns the arithmetic mean of the entries that are neither
  zero nor the sentinel.
\<close>

theorem safe_avg_mean_of_nonzero_finite:
  "(\<exists>r. safe_avg vs = Inr r)
   \<and> (safe_avg vs = Inr None \<longleftrightarrow> (\<forall>v \<in> set vs. v = Fin 0 \<or> v = PInf))
   \<and> (NInf \<notin> set vs \<and> NaN \<notin> set vs \<longrightarrow>
        safe_avg vs =
          Inr (let rs = filter (\<lambda>r. r \<noteq> 0) (finite_values vs)
               in if rs = [] then None else Some (Fin (sum_list rs / real (length rs)))))"
  using safe_avg_never_raises [of vs] safe_avg_none_iff [of vs] safe_avg_finite [of vs]
  by blast

theorem safe_avg_mean_of_nonzero_finite_witness:
  "NInf \<notin> set [Fin 0, Fin 10, PInf, Fin 20] \<and> NaN \<notin> set [Fin 0, Fin 10, PInf, Fin 20]
   \<and> safe_avg [Fin 0, Fin 10, PInf, Fin 20] = Inr (Some (Fin 15))
   \<and> set [Fin 0, PInf] \<subseteq> {Fin 0, PInf}
   \<and> safe_avg [Fin 0, PInf] = Inr None"
  using safe_avg_mean_of_nonzero_finite [of "[Fin 0, Fin 10, PInf, Fin 20]"]
        safe_avg_mean_of_nonzero_finite [of "[Fin 0, PInf]"]
  by simp

section \<open>Properties of the spot price and the deviation\<close>

lemma v2_spot_price_value:
  "v2_spot_price (r0, r1, t) =
     Inr (if r0 = 0 then PInf
          else Fin ((real_of_int r1 / 10 ^ 6) / (real_of_int r0 / 10 ^ 18)))"
  by (simp add: v2_spot_price_def USDT_DECIMALS_def Let_def)

text \<open>
  Claim C6.  For every pair of reserves the spot calculator of the constant-product
  venue never raises; it returns \<open>r1 / 10^6\<close> divided by \<open>r0 / 10^18\<close> when \<open>r0\<close> is
  not zero, and the undefined value when \<open>r0\<close> is zero, which the code represents by
  \<^verbatim>\<open>float("inf")\<close>.  The reserves \<open>100 * 10^18\<close> and \<open>180000 * 10^6\<close> give 1800.
\<close>

theorem v2_spot_price_mid:
  "v2_spot_price (r0, r1, t) =
     Inr (if r0 = 0 then PInf
          else Fin ((real_of_int r1 / 10 ^ 6) / (real_of_int r0 / 10 ^ 18)))
   \<and> v2_spot_price (100 * 10 ^ 18, 180000 * 10 ^ 6, t) = Inr (Fin 1800)
   \<and> v2_spot_price (0, r1, t) = Inr PInf"
  by (simp add: v2_spot_price_value)

lemma pct_diff_finite:
  "pct_diff (Some (Fin x)) (Some (Fin y)) =
     Inr (if y = 0 then None else Some (Fin (100 * (x - y) / y)))"
  by (simp add: pct_diff_def fsub_def)

lemma pct_diff_never_raises: "\<exists>r. pct_diff a b = Inr r"
  apply (cases a; cases b; simp add: pct_diff_def)
  subgoal for x y
    by (cases "fmul (Fin 100) (fsub x y)"; cases y) auto
  done

lemma pct_diff_none_iff:
  "pct_diff a b = Inr None \<longleftrightarrow> a = None \<or> b = None \<or> b = Some (Fin 0)"
  using pct_diff_never_raises [of a b]
  by (cases a; cases b) (auto simp add: pct_diff_def split: sum.splits if_splits)

lemma deviation_warn_finite:
  "deviation_warn (Some (Fin x)) (Fin y) = Inr (y \<noteq> 0 \<and> 1 < \<bar>100 * (x - y) / y\<bar>)"
  by (simp add: deviation_warn_def pct_diff_finite DEVIATION_WARN_PCT_def)

text \<open>
  An infinite spot price, as \<^verbatim>\<open>v2_spot_price\<close> returns for an empty base reserve,
  is a float like any other for \<^verbatim>\<open>pct_diff\<close>: the difference is not a number and
  no warning is printed.
\<close>

lemma deviation_warn_infinite_spot:
  "pct_diff (Some (Fin x)) (Some PInf) = Inr (Some NaN)"
  "deviation_warn (Some (Fin x)) PInf = Inr False"
  by (simp_all add: deviation_warn_def pct_diff_def fsub_def inf_of_sign_def)

text \<open>
  Claim C7.  \<^verbatim>\<open>pct_diff\<close> never raises and is \<open>None\<close> exactly when one of its
  inputs is \<open>None\<close> or the spot is zero; on a finite VWAP \<open>x\<close> and a finite spot
  \<open>y \<noteq> 0\<close> it is \<open>100 * (x - y) / y\<close>.  The warning is printed exactly when the
  absolute deviation is strictly greater than the threshold \<^verbatim>\<open>DEVIATION_WARN_PCT\<close>,
  which is 1.  A VWAP of 1818 against a spot of 1800 deviates by exactly 1, which is at
  the threshold and prints no warning; 1819 against 1800 prints it.
\<close>

theorem pct_diff_and_warning:
  "pct_diff None b = Inr None
   \<and> pct_diff a None = Inr None
   \<and> pct_diff a (Some (Fin 0)) = Inr None
   \<and> (pct_diff a b = Inr None \<longleftrightarrow> a = None \<or> b = None \<or> b = Some (Fin 0))
   \<and> pct_diff (Some (Fin x)) (Some (Fin y)) =
       Inr (if y = 0 then None else Some (Fin (100 * (x - y) / y)))
   \<and> deviation_warn None spot = Inr False
   \<and> deviation_warn (Some (Fin x)) (Fin y) = Inr (y \<noteq> 0 \<and> 1 < \<bar>100 * (x - y) / y\<bar>)
   \<and> DEVIATION_WARN_PCT = Fin 1
   \<and> pct_diff (Some (Fin 1818)) (Some (Fin 1800)) = Inr (Some (Fin 1))
   \<and> deviation_warn (Some (Fin 1818)) (Fin 1800) = Inr False
   \<and> deviation_warn (Some (Fin 1819)) (Fin 1800) = Inr True"
proof -
  have n: "pct_diff None b = Inr None" "pct_diff a None = Inr None"
      "pct_diff a (Some (Fin 0)) = Inr None"
    by (simp_all add: pct_diff_none_iff)
  have w: "deviation_warn None spot = Inr False"
    by (simp add: deviation_warn_def)
  have e: "pct_diff (Some (Fin 1818)) (Some (Fin 1800)) = Inr (Some (Fin 1))"
      "deviation_warn (Some (Fin 1818)) (Fin 1800) = Inr False"
      "deviation_warn (Some (Fin 1819)) (Fin 1800) = Inr True"
    by (simp_all add: pct_diff_finite deviation_warn_finite)
  show ?thesis
    using n w e pct_diff_none_iff [of a b] pct_diff_finite [of x y]
      deviation_warn_finite [of x y] DEVIATION_WARN_PCT_def
    by blast
qed

section \<open>Properties of the engine\<close>

text \<open>
  Claim C8.  The combined VWAP is \<^verbatim>\<open>vwap\<close> applied to the last \<^verbatim>\<open>VWAP_WINDOW\<close>
  entries of the concatenation of the two venue windows, a view that never holds more
  than \<^verbatim>\<open>VWAP_WINDOW\<close> entries.  The engine keeps no combined window: each spot
  refresh computes the value from the two windows as they are at that moment and
  records it in the chart series.
\<close>

theorem combined_vwap_rederived:
  "combined_vwap xs ys = vwap (drop (length (xs @ ys) - VWAP_WINDOW) (xs @ ys))
   \<and> length (drop (length (xs @ ys) - VWAP_WINDOW) (xs @ ys)) \<le> VWAP_WINDOW
   \<and> (\<exists>v2s comb.
         v2_spot_price rs = Inr v2s
       \<and> vwap (drop (length (v2_trades s @ v3_trades s) - VWAP_WINDOW)
                 (v2_trades s @ v3_trades s)) = Inr comb
       \<and> spot_refresh now (Inr rs) (Inr q) s =
           Inr (s\<lparr>v2spot := Some v2s, v3spot := Some (v3_spot_price q),
                  series := deque_append 600 (series s)
                              (now, v2s, v3_spot_price q, comb_or_nan comb)\<rparr>))"
proof -
  obtain r0 r1 t where rs: "rs = (r0, r1, t)" by (cases rs)
  obtain v2s where a: "v2_spot_price rs = Inr v2s"
    unfolding rs v2_spot_price_value by blast
  obtain comb where b:
    "vwap (drop (length (v2_trades s @ v3_trades s) - VWAP_WINDOW)
             (v2_trades s @ v3_trades s)) = Inr comb"
    using vwap_never_raises by blast
  have c: "spot_refresh now (Inr rs) (Inr q) s =
           Inr (s\<lparr>v2spot := Some v2s, v3spot := Some (v3_spot_price q),
                  series := deque_append 600 (series s)
                              (now, v2s, v3_spot_price q, comb_or_nan comb)\<rparr>)"
    using b by (simp add: spot_refresh_def a combined_vwap_last Let_def)
  show ?thesis
    using a b c combined_vwap_last [of xs ys] by simp
qed

text \<open>
  Claim C9.  The reconnect step of the engine leaves the two venue windows and the
  log of recent trades as they were, whatever the outcome of each rebuilding step, so
  the aggregates computed from them are the same after it as before.  The state after
  the step differs from the state before it in the connection, the two contracts and
  the two filters at most.
\<close>

theorem reconnect_keeps_windows:
  "v2_trades (reconnect env s) = v2_trades s
   \<and> v3_trades (reconnect env s) = v3_trades s
   \<and> recent_execs (reconnect env s) = recent_execs s
   \<and> vwap (v2_trades (reconnect env s)) = vwap (v2_trades s)
   \<and> vwap (v3_trades (reconnect env s)) = vwap (v3_trades s)
   \<and> combined_vwap (v2_trades (reconnect env s)) (v3_trades (reconnect env s))
       = combined_vwap (v2_trades s) (v3_trades s)
   \<and> (\<exists>w c2 c3 f2 f3.
        reconnect env s = s\<lparr>w3 := w, v2 := c2, v3 := c3, v2_filter := f2, v3_filter := f3\<rparr>)"
proof -
  have ex: "\<exists>w c2 c3 f2 f3.
        reconnect env s = s\<lparr>w3 := w, v2 := c2, v3 := c3, v2_filter := f2, v3_filter := f3\<rparr>"
  proof -
    have "reconnect env s = s\<lparr>w3 := w3 (reconnect env s), v2 := v2 (reconnect env s),
             v3 := v3 (reconnect env s), v2_filter := v2_filter (reconnect env s),
             v3_filter := v3_filter (reconnect env s)\<rparr>"
      by (simp add: reconnect_def Let_def split: sum.splits)
    then show ?thesis by blast
  qed
  then obtain w c2 c3 f2 f3 where
    e: "reconnect env s = s\<lparr>w3 := w, v2 := c2, v3 := c3, v2_filter := f2, v3_filter := f3\<rparr>"
    by blast
  show ?thesis
    using ex by (simp add: e)
qed

section \<open>What the filtering decoders can return\<close>

lemma ratio_bounds:
  fixes a b M :: real
  assumes "1 \<le> a" "a \<le> M" "1 \<le> b" "b \<le> M"
  shows "(b / 10 ^ 6) / (a / 10 ^ 18) \<le> M * 10 ^ 12"
    and "10 ^ 12 / M \<le> (b / 10 ^ 6) / (a / 10 ^ 18)"
    and "0 < (b / 10 ^ 6) / (a / 10 ^ 18)"
proof -
  have eq: "(b / 10 ^ 6) / (a / 10 ^ 18) = (b * 10 ^ 12) / a"
    by simp
  have "(b * 10 ^ 12) / a \<le> (M * 10 ^ 12) / 1"
    using assms by (intro frac_le) simp_all
  then show "(b / 10 ^ 6) / (a / 10 ^ 18) \<le> M * 10 ^ 12"
    by (simp only: eq div_by_1)
  have "(1 * 10 ^ 12) / M \<le> (b * 10 ^ 12) / a"
    using assms by (intro frac_le) simp_all
  then show "10 ^ 12 / M \<le> (b / 10 ^ 6) / (a / 10 ^ 18)"
    by (simp only: eq mult_1)
  show "0 < (b / 10 ^ 6) / (a / 10 ^ 18)"
    using assms by simp
qed

lemma of_int_le_pow2:
  fixes x :: int
  assumes "x \<le> 2 ^ n"
  shows "real_of_int x \<le> 2 ^ n"
proof -
  have "real_of_int x \<le> real_of_int (2 ^ n)"
    using assms by (simp only: of_int_le_iff)
  then show ?thesis by simp
qed

lemma accepted_amounts:
  fixes x y :: int and M :: real
  assumes "0 < x" "0 < y"
  shows "0 < (real_of_int y / 10 ^ 6) / (real_of_int x / 10 ^ 18)"
    and "0 < real_of_int x / 10 ^ 18"
    and "real_of_int x \<le> M \<Longrightarrow> real_of_int y \<le> M \<Longrightarrow>
           10 ^ 12 / M \<le> (real_of_int y / 10 ^ 6) / (real_of_int x / 10 ^ 18)
         \<and> (real_of_int y / 10 ^ 6) / (real_of_int x / 10 ^ 18) \<le> M * 10 ^ 12
         \<and> 1 / 10 ^ 18 \<le> real_of_int x / 10 ^ 18
         \<and> real_of_int x / 10 ^ 18 \<le> M / 10 ^ 18"
proof -
  have x1: "1 \<le> real_of_int x" and y1: "1 \<le> real_of_int y"
    using assms by simp_all
  show "0 < (real_of_int y / 10 ^ 6) / (real_of_int x / 10 ^ 18)"
    using assms by simp
  show "0 < real_of_int x / 10 ^ 18"
    using assms by simp
  assume xm: "real_of_int x \<le> M" and ym: "real_of_int y \<le> M"
  have w1: "1 / 10 ^ 18 \<le> real_of_int x / 10 ^ 18"
    using x1 by (intro divide_right_mono) simp_all
  have w2: "real_of_int x / 10 ^ 18 \<le> M / 10 ^ 18"
    using xm by (intro divide_right_mono) simp_all
  show "10 ^ 12 / M \<le> (real_of_int y / 10 ^ 6) / (real_of_int x / 10 ^ 18)
         \<and> (real_of_int y / 10 ^ 6) / (real_of_int x / 10 ^ 18) \<le> M * 10 ^ 12
         \<and> 1 / 10 ^ 18 \<le> real_of_int x / 10 ^ 18
         \<and> real_of_int x / 10 ^ 18 \<le> M / 10 ^ 18"
    using ratio_bounds(1,2) [OF x1 xm y1 ym] w1 w2 by blast
qed

lemma v2_accepted:
  assumes "spotprice_v2_price_from_swap a = Inr (Some (px, sz))"
  shows "0 < amount0In a" "0 < amount1Out a"
    "px = Fin ((real_of_int (amount1Out a) / 10 ^ 6) / (real_of_int (amount0In a) / 10 ^ 18))"
    "sz = Fin (real_of_int (amount0In a) / 10 ^ 18)"
  using assms by (simp_all add: v2_decoders_value split: if_splits)

lemma v3_accepted:
  assumes "spotprice_v3_price_from_swap a = Inr (Some (px, sz))"
  shows "0 < amount0 a" "0 < \<bar>amount1 a\<bar>" "amount1 a < 0"
    "px = Fin ((real_of_int \<bar>amount1 a\<bar> / 10 ^ 6) / (real_of_int (amount0 a) / 10 ^ 18))"
    "sz = Fin (real_of_int (amount0 a) / 10 ^ 18)"
  using assms by (simp_all add: v3_decoders_value split: if_splits)

lemma v2_accepted_finite:
  assumes "spotprice_v2_price_from_swap a = Inr (Some (px, sz))"
  shows "\<exists>p w. px = Fin p \<and> sz = Fin w \<and> 0 < p \<and> 0 < w \<and> px \<noteq> PInf
           \<and> (uint256_args a \<longrightarrow>
                10 ^ 12 / 2 ^ 256 \<le> p \<and> p \<le> 2 ^ 256 * 10 ^ 12
              \<and> 1 / 10 ^ 18 \<le> w \<and> w \<le> 2 ^ 256 / 10 ^ 18)"
proof -
  note acc = v2_accepted [OF assms]
  note pos = accepted_amounts(1,2) [OF acc(1) acc(2)]
  have rng: "10 ^ 12 / 2 ^ 256 \<le> (real_of_int (amount1Out a) / 10 ^ 6) / (real_of_int (amount0In a) / 10 ^ 18)
         \<and> (real_of_int (amount1Out a) / 10 ^ 6) / (real_of_int (amount0In a) / 10 ^ 18) \<le> 2 ^ 256 * 10 ^ 12
         \<and> 1 / 10 ^ 18 \<le> real_of_int (amount0In a) / 10 ^ 18
         \<and> real_of_int (amount0In a) / 10 ^ 18 \<le> 2 ^ 256 / 10 ^ 18"
    if "uint256_args a"
  proof -
    have le: "amount0In a \<le> 2 ^ 256" "amount1Out a \<le> 2 ^ 256"
      using that unfolding uint256_args_def by linarith+
    have "real_of_int (amount0In a) \<le> 2 ^ 256" "real_of_int (amount1Out a) \<le> 2 ^ 256"
      by (rule of_int_le_pow2, rule le)+
    then show ?thesis
      by (rule accepted_amounts(3) [OF acc(1) acc(2)])
  qed
  show ?thesis
    unfolding acc(3) acc(4) using pos rng by blast
qed

lemma v3_accepted_finite:
  assumes "spotprice_v3_price_from_swap a = Inr (Some (px, sz))"
  shows "\<exists>p w. px = Fin p \<and> sz = Fin w \<and> 0 < p \<and> 0 < w \<and> px \<noteq> PInf
           \<and> (int256_args a \<longrightarrow>
                10 ^ 12 / 2 ^ 256 \<le> p \<and> p \<le> 2 ^ 256 * 10 ^ 12
              \<and> 1 / 10 ^ 18 \<le> w \<and> w \<le> 2 ^ 256 / 10 ^ 18)"
proof -
  note acc = v3_accepted [OF assms]
  note pos = accepted_amounts(1,2) [OF acc(1) acc(2)]
  have rng: "10 ^ 12 / 2 ^ 256 \<le> (real_of_int \<bar>amount1 a\<bar> / 10 ^ 6) / (real_of_int (amount0 a) / 10 ^ 18)
         \<and> (real_of_int \<bar>amount1 a\<bar> / 10 ^ 6) / (real_of_int (amount0 a) / 10 ^ 18) \<le> 2 ^ 256 * 10 ^ 12
         \<and> 1 / 10 ^ 18 \<le> real_of_int (amount0 a) / 10 ^ 18
         \<and> real_of_int (amount0 a) / 10 ^ 18 \<le> 2 ^ 256 / 10 ^ 18"
    if "int256_args a"
  proof -
    have "(2::int) ^ 255 \<le> 2 ^ 256"
      by (rule power_increasing) simp_all
    then have le: "amount0 a \<le> 2 ^ 256" "\<bar>amount1 a\<bar> \<le> 2 ^ 256"
      using that unfolding int256_args_def by linarith+
    have "real_of_int (amount0 a) \<le> 2 ^ 256" "real_of_int \<bar>amount1 a\<bar> \<le> 2 ^ 256"
      by (rule of_int_le_pow2, rule le)+
    then show ?thesis
      by (rule accepted_amounts(3) [OF acc(1) acc(2)])
  qed
  show ?thesis
    unfolding acc(4) acc(5) using pos rng by blast
qed

text \<open>
  Ingestion keeps the windows of the engine free of the sentinel: what it appends is a
  trade that a decoder accepted.  The VWAP of such a window, once it is not empty, is
  available and positive.
\<close>

lemma set_deque_append: "set (deque_append K d x) \<subseteq> insert x (set d)"
  by (cases d) (auto simp add: deque_append_def Let_def)

lemma window_ok_append:
  "window_ok d \<Longrightarrow> is_pos_fin p \<Longrightarrow> is_pos_fin sz \<Longrightarrow> window_ok (deque_append K d (p, sz))"
  using set_deque_append [of K d "(p, sz)"]
  by (auto simp add: window_ok_def list_all_iff)

lemma ingest_v2_keeps_finite:
  assumes "ingest_v2 now blk txh ev s = Inr s'" and "window_ok (v2_trades s)"
  shows "window_ok (v2_trades s')" and "v3_trades s' = v3_trades s"
proof -
  show "v3_trades s' = v3_trades s"
    using assms(1) by (auto simp add: ingest_v2_def split: sum.splits option.splits)
  show "window_ok (v2_trades s')"
  proof (cases "swapui_v2_price_from_swap ev")
    case (Inl e)
    then show ?thesis using assms by (simp add: ingest_v2_def)
  next
    case (Inr res)
    show ?thesis
    proof (cases res)
      case None
      then show ?thesis using assms Inr by (simp add: ingest_v2_def)
    next
      case (Some pr)
      obtain px sz where pr: "pr = (px, sz)" by (cases pr)
      have "spotprice_v2_price_from_swap ev = Inr (Some (px, sz))"
        using Inr Some pr by (simp add: v2_decoders_value(2))
      from v2_accepted_finite [OF this]
      have "is_pos_fin px \<and> is_pos_fin sz" by auto
      then show ?thesis
        using assms Inr Some pr by (auto simp add: ingest_v2_def window_ok_append)
    qed
  qed
qed

lemma ingest_v3_keeps_finite:
  assumes "ingest_v3 now blk txh ev s = Inr s'" and "window_ok (v3_trades s)"
  shows "window_ok (v3_trades s')" and "v2_trades s' = v2_trades s"
proof -
  show "v2_trades s' = v2_trades s"
    using assms(1) by (auto simp add: ingest_v3_def split: sum.splits option.splits)
  show "window_ok (v3_trades s')"
  proof (cases "swapui_v3_price_from_swap ev")
    case (Inl e)
    then show ?thesis using assms by (simp add: ingest_v3_def)
  next
    case (Inr res)
    show ?thesis
    proof (cases res)
      case None
      then show ?thesis using assms Inr by (simp add: ingest_v3_def)
    next
      case (Some pr)
      obtain px sz where pr: "pr = (px, sz)" by (cases pr)
      have "spotprice_v3_price_from_swap ev = Inr (Some (px, sz))"
        using Inr Some pr by (simp add: v3_decoders_value(2))
      from v3_accepted_finite [OF this]
      have "is_pos_fin px \<and> is_pos_fin sz" by auto
      then show ?thesis
        using assms Inr Some pr by (auto simp add: ingest_v3_def window_ok_append)
    qed
  qed
qed

lemma window_ok_reals:
  "window_ok d \<Longrightarrow> \<exists>xs. d = map fin_pair xs \<and> list_all (\<lambda>(p, w). 0 < p \<and> 0 < w) xs"
proof (induction d)
  case Nil
  then show ?case by simp
next
  case (Cons e d)
  obtain a b where e: "e = (a, b)" by (cases e)
  from Cons.prems e obtain p w where pw: "a = Fin p" "b = Fin w" "0 < p" "0 < w"
    by (cases a; cases b) (simp_all add: window_ok_def)
  from Cons obtain xs where xs: "d = map fin_pair xs" "list_all (\<lambda>(p, w). 0 < p \<and> 0 < w) xs"
    by (auto simp add: window_ok_def)
  have "e # d = map fin_pair ((p, w) # xs)"
    using e pw xs by (simp add: fin_pair_def)
  moreover have "list_all (\<lambda>(p, w). 0 < p \<and> 0 < w) ((p, w) # xs)"
    using pw xs by simp
  ultimately show ?case by (intro exI [of _ "(p, w) # xs"] conjI)
qed

lemma sum_list_pos_pairs:
  fixes xs :: "(real \<times> real) list"
  assumes "list_all (\<lambda>(p, w). 0 < p \<and> 0 < w) xs" "xs \<noteq> []"
  shows "0 < (\<Sum>(p, w)\<leftarrow>xs. w)" "0 < (\<Sum>(p, w)\<leftarrow>xs. p * w)"
proof -
  have "0 < (\<Sum>(p, w)\<leftarrow>xs. w) \<and> 0 < (\<Sum>(p, w)\<leftarrow>xs. p * w)"
    using assms
  proof (induction xs)
    case Nil
    then show ?case by simp
  next
    case (Cons e xs)
    obtain p w where e: "e = (p, w)" by (cases e)
    have pw: "0 < p" "0 < w" using Cons.prems e by simp_all
    show ?case
    proof (cases "xs = []")
      case True
      then show ?thesis using pw e by simp
    next
      case False
      then have "0 < (\<Sum>(p, w)\<leftarrow>xs. w) \<and> 0 < (\<Sum>(p, w)\<leftarrow>xs. p * w)"
        using Cons by simp
      then show ?thesis using pw e by (simp add: add_pos_pos)
    qed
  qed
  then show "0 < (\<Sum>(p, w)\<leftarrow>xs. w)" "0 < (\<Sum>(p, w)\<leftarrow>xs. p * w)" by simp_all
qed

lemma window_ok_vwap:
  assumes "window_ok d" "d \<noteq> []"
  shows "\<exists>q. vwap d = Inr (Some (Fin q)) \<and> 0 < q"
proof -
  from window_ok_reals [OF assms(1)] obtain xs where
    xs: "d = map fin_pair xs" "list_all (\<lambda>(p, w). 0 < p \<and> 0 < w) xs" by blast
  have ne: "xs \<noteq> []" using assms(2) xs(1) by auto
  note pos = sum_list_pos_pairs [OF xs(2) ne]
  have "vwap d = Inr (Some (Fin ((\<Sum>(p, w)\<leftarrow>xs. p * w) / (\<Sum>(p, w)\<leftarrow>xs. w))))"
    using ne pos unfolding xs(1) vwap_finite by simp
  moreover have "0 < (\<Sum>(p, w)\<leftarrow>xs. p * w) / (\<Sum>(p, w)\<leftarrow>xs. w)"
    using pos by simp
  ultimately show ?thesis by blast
qed

text \<open>
  Claim C10.  A trade returned by any of the four filtering decoders has a finite,
  strictly positive price and a finite, strictly positive size; the size is the value
  that the fallback tests, and it is never zero, so the price is never the infinite
  sentinel.  For amounts within the ranges of the event ABI the price lies between
  \<open>10^12 / 2^256\<close> and \<open>2^256 * 10^12\<close> and the size between \<open>10^-18\<close> and
  \<open>2^256 / 10^18\<close>, far inside the range of a double.  Appending such a trade to a
  window of finite, positive entries gives a window of finite, positive entries.
\<close>

theorem decoders_accept_only_finite_positive:
  assumes "r \<in> {spotprice_v2_price_from_swap a, swapui_v2_price_from_swap a,
                spotprice_v3_price_from_swap b, swapui_v3_price_from_swap b}"
    and "r = Inr (Some (px, sz))"
  shows "\<exists>p w. px = Fin p \<and> sz = Fin w \<and> 0 < p \<and> 0 < w \<and> px \<noteq> PInf \<and> truthy sz
           \<and> (uint256_args a \<and> int256_args b \<longrightarrow>
                10 ^ 12 / 2 ^ 256 \<le> p \<and> p \<le> 2 ^ 256 * 10 ^ 12
              \<and> 1 / 10 ^ 18 \<le> w \<and> w \<le> 2 ^ 256 / 10 ^ 18)
           \<and> (window_ok d \<longrightarrow> window_ok (deque_append K d (px, sz)))"
proof -
  have push: "window_ok (deque_append K d (Fin p, Fin w))"
    if "window_ok d" "0 < p" "0 < w" for p w
    using that by (simp add: window_ok_append)
  consider "spotprice_v2_price_from_swap a = Inr (Some (px, sz))"
    | "spotprice_v3_price_from_swap b = Inr (Some (px, sz))"
    using assms by (auto simp add: v2_decoders_value(2) v3_decoders_value(2))
  then show ?thesis
  proof cases
    case 1
    from v2_accepted_finite [OF 1] push show ?thesis by fastforce
  next
    case 2
    from v3_accepted_finite [OF 2] push show ?thesis by fastforce
  qed
qed

theorem decoders_accept_only_finite_positive_witness:
  "spotprice_v2_price_from_swap
       \<lparr>amount0In = 10 ^ 18, amount1In = 0, amount0Out = 0, amount1Out = 2000 * 10 ^ 6\<rparr>
     = Inr (Some (Fin 2000, Fin 1))
   \<and> uint256_args \<lparr>amount0In = 10 ^ 18, amount1In = 0, amount0Out = 0, amount1Out = 2000 * 10 ^ 6\<rparr>
   \<and> int256_args \<lparr>amount0 = 10 ^ 18, amount1 = - (1800 * 10 ^ 6), sqrtPriceX96 = 0,
                   liquidity = 0, tick = 0\<rparr>
   \<and> (\<exists>p w. Fin 2000 = Fin p \<and> Fin 1 = Fin w \<and> 0 < p \<and> 0 < w \<and> p \<le> 2 ^ 256 * 10 ^ 12)
   \<and> window_ok [(Fin 1800, Fin 3)]
   \<and> window_ok (deque_append 1 [(Fin 1800, Fin 3)] (Fin 2000, Fin 1))"
proof -
  have wk: "window_ok [(Fin 1800, Fin 3)]"
    by (simp add: window_ok_def)
  let ?a = "\<lparr>amount0In = 10 ^ 18, amount1In = 0, amount0Out = 0, amount1Out = 2000 * 10 ^ 6\<rparr>"
  let ?b = "\<lparr>amount0 = 10 ^ 18, amount1 = - (1800 * 10 ^ 6), sqrtPriceX96 = 0,
             liquidity = 0, tick = 0\<rparr>"
  have v: "spotprice_v2_price_from_swap ?a = Inr (Some (Fin 2000, Fin 1))"
    by (simp add: v2_decoders_value)
  have m: "spotprice_v2_price_from_swap ?a \<in>
             {spotprice_v2_price_from_swap ?a, swapui_v2_price_from_swap ?a,
              spotprice_v3_price_from_swap ?b, swapui_v3_price_from_swap ?b}"
    by simp
  have ua: "uint256_args ?a"
    by (simp add: uint256_args_def)
  have ib: "int256_args ?b"
    by (simp add: int256_args_def)
  from decoders_accept_only_finite_positive [OF m v, of "[(Fin 1800, Fin 3)]" 1] ua ib wk
  have "(\<exists>p w. Fin 2000 = Fin p \<and> Fin 1 = Fin w \<and> 0 < p \<and> 0 < w \<and> p \<le> 2 ^ 256 * 10 ^ 12)
      \<and> window_ok (deque_append 1 [(Fin 1800, Fin 3)] (Fin 2000, Fin 1))"
    by blast
  with v ua ib wk show ?thesis by blast
qed

end
